theory Spec2Isabelle
  imports Complex_Main
begin

section \<open>JavaScript values\<close>

text \<open>
  The two engines of \<^verbatim>\<open>engine.ts\<close> are JavaScript programs, so the model starts
  with the values they compute on. A number is an exact real or NaN: rounding, signed
  zeros and overflow to an infinity are not modelled. An object is known by its
  reference; a reference is either an address allocated at run time or one of the members
  that every object literal inherits from \<^verbatim>\<open>Object.prototype\<close>.
\<close>

datatype number = Finite real | NaN

datatype ref = Addr nat | ObjectPrototype string

datatype jsval = Undefined | Null | Bool bool | Num number | Str string | Obj ref

type_synonym obj = "string \<rightharpoonup> jsval"

datatype error = TypeError

text \<open>
  What the runtime does with strings and objects as operands (parsing a string as a
  number, printing a number, comparing two strings, calling \<^verbatim>\<open>valueOf\<close>) is not
  modelled: it is a parameter, asked only when an operand is a string or an object, and
  taken to have no effect on the engine. The last field says whether the engine's script
  runs in strict mode, as the code of a module does.
\<close>

record host =
  host_ToNumber :: "jsval \<Rightarrow> number"
  host_ToString :: "jsval \<Rightarrow> string"
  host_add :: "jsval \<Rightarrow> jsval \<Rightarrow> jsval"
  host_lt :: "jsval \<Rightarrow> jsval \<Rightarrow> bool"
  host_strict :: bool

fun truthy :: "jsval \<Rightarrow> bool" where
  "truthy Undefined = False"
| "truthy Null = False"
| "truthy (Bool b) = b"
| "truthy (Num (Finite r)) = (r \<noteq> 0)"
| "truthy (Num NaN) = False"
| "truthy (Str s) = (s \<noteq> [])"
| "truthy (Obj r) = True"

definition js_or :: "jsval \<Rightarrow> jsval \<Rightarrow> jsval" where
  \<comment> \<open>\<^verbatim>\<open>a || b\<close>\<close>
  "js_or a b = (if truthy a then a else b)"

fun typeof_number :: "jsval \<Rightarrow> bool" where
  \<comment> \<open>\<^verbatim>\<open>typeof v === 'number'\<close>\<close>
  "typeof_number (Num n) = True"
| "typeof_number v = False"

definition strict_eq :: "jsval \<Rightarrow> jsval \<Rightarrow> bool" where
  \<comment> \<open>\<^verbatim>\<open>a === b\<close>: identity on references, and NaN differs from itself\<close>
  "strict_eq a b = (a = b \<and> a \<noteq> Num NaN)"

fun is_stringy :: "jsval \<Rightarrow> bool" where
  "is_stringy (Str s) = True"
| "is_stringy (Obj r) = True"
| "is_stringy v = False"

fun ToNumber :: "host \<Rightarrow> jsval \<Rightarrow> number" where
  "ToNumber h Undefined = NaN"
| "ToNumber h Null = Finite 0"
| "ToNumber h (Bool b) = Finite (if b then 1 else 0)"
| "ToNumber h (Num n) = n"
| "ToNumber h (Str s) = host_ToNumber h (Str s)"
| "ToNumber h (Obj r) = host_ToNumber h (Obj r)"

fun num_add :: "number \<Rightarrow> number \<Rightarrow> number" where
  "num_add (Finite a) (Finite b) = Finite (a + b)"
| "num_add a b = NaN"

fun num_mul :: "number \<Rightarrow> number \<Rightarrow> number" where
  "num_mul (Finite a) (Finite b) = Finite (a * b)"
| "num_mul a b = NaN"

fun num_lt :: "number \<Rightarrow> number \<Rightarrow> bool" where
  "num_lt (Finite a) (Finite b) = (a < b)"
| "num_lt a b = False"

definition js_add :: "host \<Rightarrow> jsval \<Rightarrow> jsval \<Rightarrow> jsval" where
  \<comment> \<open>\<^verbatim>\<open>a + b\<close>: concatenation when a string or an object is involved, else addition\<close>
  "js_add h a b =
     (if is_stringy a \<or> is_stringy b then host_add h a b
      else Num (num_add (ToNumber h a) (ToNumber h b)))"

definition js_mul :: "host \<Rightarrow> jsval \<Rightarrow> jsval \<Rightarrow> jsval" where
  \<comment> \<open>\<^verbatim>\<open>a * b\<close>\<close>
  "js_mul h a b = Num (num_mul (ToNumber h a) (ToNumber h b))"

definition js_lt :: "host \<Rightarrow> jsval \<Rightarrow> jsval \<Rightarrow> bool" where
  \<comment> \<open>\<^verbatim>\<open>a < b\<close>: false when either side is NaN\<close>
  "js_lt h a b =
     (if is_stringy a \<or> is_stringy b then host_lt h a b
      else num_lt (ToNumber h a) (ToNumber h b))"

definition js_gt :: "host \<Rightarrow> jsval \<Rightarrow> jsval \<Rightarrow> bool" where
  \<comment> \<open>\<^verbatim>\<open>a > b\<close> is the comparison \<^verbatim>\<open>b < a\<close>\<close>
  "js_gt h a b = js_lt h b a"

text \<open>
  Reading a property. The engine reads only \<^verbatim>\<open>x\<close>, \<^verbatim>\<open>y\<close>, \<^verbatim>\<open>width\<close>,
  \<^verbatim>\<open>height\<close>, \<^verbatim>\<open>velocityY\<close> and \<^verbatim>\<open>color\<close> from a sprite, none of which a
  built-in prototype defines: a missing one reads as \<^verbatim>\<open>undefined\<close>, also on a
  primitive value.
\<close>

definition get_prop :: "(ref \<Rightarrow> obj) \<Rightarrow> jsval \<Rightarrow> string \<Rightarrow> jsval" where
  "get_prop hp v k =
     (case v of
        Obj r \<Rightarrow> (case hp r k of Some w \<Rightarrow> w | None \<Rightarrow> Undefined)
      | _ \<Rightarrow> Undefined)"

text \<open>
  Looking a key up in an object literal such as \<^verbatim>\<open>colorMap\<close> or \<^verbatim>\<open>keyMap\<close>:
  its own properties first, then the members inherited from \<^verbatim>\<open>Object.prototype\<close>.
\<close>

definition object_prototype_names :: "string list" where
  "object_prototype_names =
     [''constructor'', ''__defineGetter__'', ''__defineSetter__'', ''hasOwnProperty'',
      ''__lookupGetter__'', ''__lookupSetter__'', ''isPrototypeOf'',
      ''propertyIsEnumerable'', ''toString'', ''valueOf'', ''__proto__'',
      ''toLocaleString'']"

definition lookup_literal :: "(string \<times> string) list \<Rightarrow> string \<Rightarrow> jsval" where
  "lookup_literal lit k =
     (case map_of lit k of
        Some v \<Rightarrow> Str v
      | None \<Rightarrow> if k \<in> set object_prototype_names then Obj (ObjectPrototype k)
                else Undefined)"

section \<open>Engine2D\<close>

text \<open>
  The closure variables of the 2D engine. \<^verbatim>\<open>sprites\<close> is the live collection, in
  insertion order; the sprite objects themselves live in the heap, so that two handles to
  one sprite see the same fields. \<^verbatim>\<open>lastTime\<close> only ever holds 0 or a timestamp of
  \<^verbatim>\<open>requestAnimationFrame\<close>, a finite number. The callback slot starts with the
  do-nothing arrow function of the source.
\<close>

datatype callback = DefaultNoOp | Registered jsval

record engine2d =
  sprites :: "ref list"
  heap :: "ref \<Rightarrow> obj"
  next_addr :: nat
  keysPressed :: "string set"
  onUpdateCallback :: callback
  lastTime :: real

definition init2d :: engine2d where
  "init2d = \<lparr>sprites = [], heap = (\<lambda>r. Map.empty), next_addr = 0, keysPressed = {},
             onUpdateCallback = DefaultNoOp, lastTime = 0\<rparr>"

definition onUpdate :: "jsval \<Rightarrow> engine2d \<Rightarrow> engine2d" where
  "onUpdate cb st = st\<lparr>onUpdateCallback := Registered cb\<rparr>"

subsection \<open>physics\<close>

definition checkCollision :: "host \<Rightarrow> (ref \<Rightarrow> obj) \<Rightarrow> jsval \<Rightarrow> jsval \<Rightarrow> bool" where
  "checkCollision h hp spriteA spriteB =
     (if \<not> truthy spriteA \<or> \<not> truthy spriteB then False
      else
        js_lt h (get_prop hp spriteA ''x'')
                (js_add h (get_prop hp spriteB ''x'') (get_prop hp spriteB ''width'')) \<and>
        js_gt h (js_add h (get_prop hp spriteA ''x'') (get_prop hp spriteA ''width''))
                (get_prop hp spriteB ''x'') \<and>
        js_lt h (get_prop hp spriteA ''y'')
                (js_add h (get_prop hp spriteB ''y'') (get_prop hp spriteB ''height'')) \<and>
        js_gt h (js_add h (get_prop hp spriteA ''y'') (get_prop hp spriteA ''height''))
                (get_prop hp spriteB ''y''))"

definition getCollisions :: "host \<Rightarrow> engine2d \<Rightarrow> jsval \<Rightarrow> ref list" where
  "getCollisions h st sprite =
     filter (\<lambda>other. \<not> strict_eq sprite (Obj other) \<and>
                     checkCollision h (heap st) sprite (Obj other))
            (sprites st)"

definition set_prop :: "(ref \<Rightarrow> obj) \<Rightarrow> ref \<Rightarrow> string \<Rightarrow> jsval \<Rightarrow> (ref \<Rightarrow> obj)" where
  \<comment> \<open>\<^verbatim>\<open>o.k = v\<close> on the object at reference \<open>r\<close>\<close>
  "set_prop hp r k v = hp(r := (hp r)(k \<mapsto> v))"

definition default_arg :: "jsval \<Rightarrow> jsval \<Rightarrow> jsval" where
  \<comment> \<open>a default parameter value applies exactly when the argument is \<^verbatim>\<open>undefined\<close>\<close>
  "default_arg v d = (if v = Undefined then d else v)"

definition applyGravity :: "host \<Rightarrow> jsval \<Rightarrow> jsval \<Rightarrow> engine2d \<Rightarrow> error + engine2d" where
  \<comment> \<open>Reading a property of \<^verbatim>\<open>null\<close> or \<^verbatim>\<open>undefined\<close> throws. Writing one
      on another primitive throws in strict mode and is ignored otherwise.\<close>
  "applyGravity h sprite gravityForce st =
     (case sprite of
        Obj r \<Rightarrow>
          (let g = default_arg gravityForce (Num (Finite 980));
               hp0 = heap st;
               hp1 = (if \<not> typeof_number (get_prop hp0 sprite ''velocityY'')
                      then set_prop hp0 r ''velocityY'' (Num (Finite 0)) else hp0);
               hp2 = set_prop hp1 r ''velocityY''
                       (js_add h (get_prop hp1 sprite ''velocityY'')
                                 (js_mul h g (Num (Finite (1 / 60)))));
               hp3 = set_prop hp2 r ''y''
                       (js_add h (get_prop hp2 sprite ''y'')
                                 (js_mul h (get_prop hp2 sprite ''velocityY'')
                                           (Num (Finite (1 / 60)))))
           in Inr (st\<lparr>heap := hp3\<rparr>))
      | Undefined \<Rightarrow> Inl TypeError
      | Null \<Rightarrow> Inl TypeError
      | _ \<Rightarrow> if host_strict h then Inl TypeError else Inr st)"

subsection \<open>create and destroy\<close>

record sprite_spec =
  spec_x :: jsval
  spec_y :: jsval
  spec_width :: jsval
  spec_height :: jsval
  spec_asset :: jsval
  spec_properties :: "obj option"

definition colorMap :: "(string \<times> string) list" where
  "colorMap = [(''player'', ''skyblue''), (''enemy'', ''tomato''),
               (''platform'', ''lightgreen''), (''coin'', ''gold''),
               (''default'', ''white'')]"

definition ToPropertyKey :: "host \<Rightarrow> jsval \<Rightarrow> string" where
  "ToPropertyKey h v = (case v of Str s \<Rightarrow> s | _ \<Rightarrow> host_ToString h v)"

definition sprite_color :: "host \<Rightarrow> jsval \<Rightarrow> jsval" where
  \<comment> \<open>\<^verbatim>\<open>colorMap[asset] || colorMap.default\<close>\<close>
  "sprite_color h asset =
     js_or (lookup_literal colorMap (ToPropertyKey h asset))
           (lookup_literal colorMap ''default'')"

definition create_sprite :: "host \<Rightarrow> sprite_spec \<Rightarrow> engine2d \<Rightarrow> jsval \<times> engine2d" where
  \<comment> \<open>\<^verbatim>\<open>Engine.create.sprite\<close>: the property bag is spread last, over the other fields\<close>
  "create_sprite h spec st =
     (let width = default_arg (spec_width spec) (Num (Finite 20));
          height = default_arg (spec_height spec) (Num (Finite 20));
          properties = (case spec_properties spec of None \<Rightarrow> Map.empty | Some b \<Rightarrow> b);
          fields = [''x'' \<mapsto> spec_x spec, ''y'' \<mapsto> spec_y spec, ''width'' \<mapsto> width,
                    ''height'' \<mapsto> height, ''asset'' \<mapsto> spec_asset spec,
                    ''color'' \<mapsto> sprite_color h (spec_asset spec)];
          sprite = fields ++ properties;
          r = Addr (next_addr st)
      in (Obj r, st\<lparr>heap := (heap st)(r := sprite),
                     sprites := sprites st @ [r],
                     next_addr := Suc (next_addr st)\<rparr>))"

definition destroy :: "jsval \<Rightarrow> engine2d \<Rightarrow> engine2d" where
  "destroy spriteToDestroy st =
     st\<lparr>sprites := filter (\<lambda>s. \<not> strict_eq (Obj s) spriteToDestroy) (sprites st)\<rparr>"

subsection \<open>input\<close>

text \<open>
  Strings are sequences of ASCII characters: \<^verbatim>\<open>toLowerCase\<close> maps the letters A to Z
  and leaves every other character as it is.
\<close>

definition lower_char :: "char \<Rightarrow> char" where
  "lower_char c =
     (case map_of (zip ''ABCDEFGHIJKLMNOPQRSTUVWXYZ'' ''abcdefghijklmnopqrstuvwxyz'') c of
        Some l \<Rightarrow> l | None \<Rightarrow> c)"

definition toLowerCase :: "string \<Rightarrow> string" where
  "toLowerCase s = map lower_char s"

definition remove_spaces :: "string \<Rightarrow> string" where
  \<comment> \<open>\<^verbatim>\<open>.replace(/ /g, '')\<close>\<close>
  "remove_spaces s = filter (\<lambda>c. c \<noteq> CHR '' '') s"

definition keyMap :: "(string \<times> string) list" where
  "keyMap = [(''space'', ''Space''), (''arrowleft'', ''ArrowLeft''),
             (''arrowright'', ''ArrowRight''), (''arrowup'', ''ArrowUp''),
             (''arrowdown'', ''ArrowDown'')]"

definition keyMap3D :: "(string \<times> string) list" where
  "keyMap3D = keyMap @ [(''keyw'', ''KeyW''), (''keya'', ''KeyA''),
                        (''keys'', ''KeyS''), (''keyd'', ''KeyD'')]"

definition set_has :: "string set \<Rightarrow> jsval \<Rightarrow> bool" where
  \<comment> \<open>\<^verbatim>\<open>keysPressed.has(v)\<close>: the set holds the \<^verbatim>\<open>code\<close> strings of key events\<close>
  "set_has keys v = (case v of Str s \<Rightarrow> s \<in> keys | _ \<Rightarrow> False)"

definition isPressed_with :: "(string \<times> string) list \<Rightarrow> string set \<Rightarrow> string \<Rightarrow> bool" where
  "isPressed_with km keys key =
     (let mappedKey = remove_spaces (toLowerCase key)
      in set_has keys (js_or (lookup_literal km mappedKey) (Str key)))"

definition isPressed :: "engine2d \<Rightarrow> string \<Rightarrow> bool" where
  "isPressed st key = isPressed_with keyMap (keysPressed st) key"

subsection \<open>The render loop\<close>

text \<open>
  One call of \<^verbatim>\<open>gameLoop\<close> is one animation frame. What the frame does to the
  outside is the list of its events, in order. The game's callback is foreign code; the
  parameter \<open>call\<close> says what calling a registered value with an argument does to the
  engine, or that it throws.
\<close>

datatype event =
    ClearRect
  | Update jsval
  | FillRect jsval jsval jsval jsval jsval
  | RequestAnimationFrame

type_synonym 's caller = "jsval \<Rightarrow> jsval \<Rightarrow> 's \<Rightarrow> error + 's"

fun callback_truthy :: "callback \<Rightarrow> bool" where
  "callback_truthy DefaultNoOp = True"
| "callback_truthy (Registered f) = truthy f"

fun invoke :: "'s caller \<Rightarrow> callback \<Rightarrow> jsval \<Rightarrow> 's \<Rightarrow> error + 's" where
  "invoke call DefaultNoOp arg st = Inr st"
| "invoke call (Registered f) arg st = call f arg st"

definition draw :: "engine2d \<Rightarrow> event list" where
  \<comment> \<open>\<^verbatim>\<open>sprites.forEach\<close>: the fill style is set to the sprite's colour, then the
      rectangle is filled\<close>
  "draw st =
     map (\<lambda>s. FillRect (get_prop (heap st) (Obj s) ''color'')
                        (get_prop (heap st) (Obj s) ''x'') (get_prop (heap st) (Obj s) ''y'')
                        (get_prop (heap st) (Obj s) ''width'')
                        (get_prop (heap st) (Obj s) ''height''))
         (sprites st)"

definition gameLoop :: "engine2d caller \<Rightarrow> real \<Rightarrow> engine2d
                        \<Rightarrow> error + (event list \<times> engine2d)" where
  "gameLoop call timestamp st =
     (let deltaTime = (timestamp - lastTime st) / 1000;
          st1 = st\<lparr>lastTime := timestamp\<rparr>
      in if callback_truthy (onUpdateCallback st1) then
           (let arg = js_or (Num (Finite deltaTime)) (Num (Finite 0))
            in case invoke call (onUpdateCallback st1) arg st1 of
                 Inl e \<Rightarrow> Inl e
               | Inr st2 \<Rightarrow>
                   Inr ([ClearRect, Update arg] @ draw st2 @ [RequestAnimationFrame], st2))
         else Inr ([ClearRect] @ draw st1 @ [RequestAnimationFrame], st1))"

section \<open>Engine3D\<close>

text \<open>
  The 3D engine keeps its nodes in a scene of the three.js library. A node has a
  position, the \<^verbatim>\<open>userData\<close> bag and, when it is a mesh, a geometry and a material,
  which are resources that \<^verbatim>\<open>dispose\<close> releases. Vectors hold real numbers.
\<close>

type_synonym vec3 = "real \<times> real \<times> real"

record object3D =
  position :: vec3
  userData :: obj
  geometry :: "nat option"
  material :: "nat option"

record engine3d =
  meshes :: "nat list"
  scene :: "nat list"
  objects :: "nat \<Rightarrow> object3D"
  disposed :: "nat set"
  cameraTarget :: jsval
  cameraOffset :: vec3
  camera_position :: vec3
  camera_lookAt :: "vec3 option"
  keysPressed3D :: "string set"
  onUpdateCallback3D :: callback



text \<open>
  Modelled from the spec: \<^verbatim>\<open>dispose\<close> and \<^verbatim>\<open>scene.remove\<close> belong to three.js.
  The specification has \<^verbatim>\<open>destroy\<close> release the geometry and material resources if
  present and remove the node from the scene graph: a released resource is recorded in
  \<open>disposed\<close>, and the node leaves the list of the scene's children, as the library's
  \<^verbatim>\<open>remove\<close> splices out the index it finds.
\<close>

definition dispose :: "nat option \<Rightarrow> nat set \<Rightarrow> nat set" where
  \<comment> \<open>\<^verbatim>\<open>if (r) r.dispose()\<close>\<close>
  "dispose r d = (case r of None \<Rightarrow> d | Some i \<Rightarrow> insert i d)"

definition destroy3D :: "jsval \<Rightarrow> engine3d \<Rightarrow> error + engine3d" where
  "destroy3D object3D st =
     (case object3D of
        Undefined \<Rightarrow> Inl TypeError
      | Null \<Rightarrow> Inl TypeError
      | Obj (Addr a) \<Rightarrow>
          Inr (st\<lparr>disposed := dispose (material (objects st a))
                                 (dispose (geometry (objects st a)) (disposed st)),
                   scene := remove1 a (scene st),
                   meshes := filter (\<lambda>m. \<not> strict_eq (Obj (Addr m)) object3D) (meshes st)\<rparr>)
      | _ \<Rightarrow>
          Inr (st\<lparr>meshes := filter (\<lambda>m. \<not> strict_eq (Obj (Addr m)) object3D) (meshes st)\<rparr>))"

definition isPressed3D :: "engine3d \<Rightarrow> string \<Rightarrow> bool" where
  "isPressed3D st key = isPressed_with keyMap3D (keysPressed3D st) key"


definition lookAt :: "vec3 \<Rightarrow> engine3d \<Rightarrow> engine3d" where
  "lookAt p st = st\<lparr>cameraTarget := Null, camera_lookAt := Some p\<rparr>"




section \<open>Concrete inputs\<close>

text \<open>
  A host and a caller for evaluating the engines on concrete inputs in which no string
  or object is an operand of arithmetic and the registered callback leaves the engine as
  it is, and the palette as the specification words it.
\<close>

definition plain_host :: host where
  "plain_host = \<lparr>host_ToNumber = (\<lambda>v. NaN), host_ToString = (\<lambda>v. ''[object Object]''),
                 host_add = (\<lambda>a b. Str []), host_lt = (\<lambda>a b. False),
                 host_strict = True\<rparr>"

definition idle_call :: "'s caller" where
  "idle_call f arg st = Inr st"

definition palette :: "string \<Rightarrow> string" where
  "palette k =
     (if k = ''player'' then ''skyblue''
      else if k = ''enemy'' then ''tomato''
      else if k = ''platform'' then ''lightgreen''
      else if k = ''coin'' then ''gold''
      else ''white'')"

definition has_box :: "(ref \<Rightarrow> obj) \<Rightarrow> jsval \<Rightarrow> real \<Rightarrow> real \<Rightarrow> real \<Rightarrow> real \<Rightarrow> bool" where
  \<comment> \<open>the value is a sprite whose bounding box is the given finite rectangle\<close>
  "has_box hp v bx by bw bh =
     (get_prop hp v ''x'' = Num (Finite bx) \<and> get_prop hp v ''y'' = Num (Finite by) \<and>
      get_prop hp v ''width'' = Num (Finite bw) \<and> get_prop hp v ''height'' = Num (Finite bh))"

definition init3d :: engine3d where
  \<comment> \<open>the 3D engine after its start-up code: an empty mesh list, the camera at
      \<^verbatim>\<open>z = 10\<close>, no follow target, and in the scene the grid helper (address 1, with
      a geometry and a material) and the ambient light (address 2)\<close>
  "init3d = \<lparr>meshes = [], scene = [1, 2],
             objects = (\<lambda>a. \<lparr>position = (0, 0, 0), userData = Map.empty,
                              geometry = None, material = None\<rparr>)
                       (1 := \<lparr>position = (0, 0, 0), userData = Map.empty,
                               geometry = Some 2, material = Some 3\<rparr>),
             disposed = {},
             cameraTarget = Null, cameraOffset = (0, 5, 10), camera_position = (0, 0, 10),
             camera_lookAt = None, keysPressed3D = {}, onUpdateCallback3D = DefaultNoOp\<rparr>"

definition box_spec :: "real \<Rightarrow> real \<Rightarrow> real \<Rightarrow> real \<Rightarrow> string \<Rightarrow> sprite_spec" where
  \<comment> \<open>the argument of \<^verbatim>\<open>create.sprite\<close> for a box of a kind, without a property bag\<close>
  "box_spec bx by bw bh k =
     \<lparr>spec_x = Num (Finite bx), spec_y = Num (Finite by), spec_width = Num (Finite bw),
      spec_height = Num (Finite bh), spec_asset = Str k, spec_properties = None\<rparr>"

definition demo2d :: engine2d where
  \<comment> \<open>three sprites: a player, an enemy that overlaps it, a platform that touches its
      right edge\<close>
  "demo2d =
     snd (create_sprite plain_host (box_spec 20 0 20 20 ''platform'')
       (snd (create_sprite plain_host (box_spec 10 10 20 20 ''enemy'')
         (snd (create_sprite plain_host (box_spec 0 0 20 20 ''player'') init2d)))))"

definition red_player :: sprite_spec where
  \<comment> \<open>\<^verbatim>\<open>{x: 0, y: 0, asset: 'player', properties: {color: 'red'}}\<close>\<close>
  "red_player =
     \<lparr>spec_x = Num (Finite 0), spec_y = Num (Finite 0), spec_width = Undefined,
      spec_height = Undefined, spec_asset = Str ''player'',
      spec_properties = Some [''color'' \<mapsto> Str ''red'']\<rparr>"

definition demo3d :: engine3d where
  \<comment> \<open>one mesh added, at address 0, with a geometry and a material\<close>
  "demo3d = init3d\<lparr>meshes := [0], scene := scene init3d @ [0],
              objects := (objects init3d)(0 := \<lparr>position = (1, 2, 3), userData = Map.empty,
                                                geometry = Some 0, material = Some 1\<rparr>)\<rparr>"

definition moved_red_player :: sprite_spec where
  \<comment> \<open>\<^verbatim>\<open>{x: 0, y: 0, asset: 'player', properties: {x: 5, color: 'red'}}\<close>\<close>
  "moved_red_player =
     \<lparr>spec_x = Num (Finite 0), spec_y = Num (Finite 0), spec_width = Undefined,
      spec_height = Undefined, spec_asset = Str ''player'',
      spec_properties = Some [''x'' \<mapsto> Num (Finite 5), ''color'' \<mapsto> Str ''red'']\<rparr>"

definition computed_field :: "host \<Rightarrow> sprite_spec \<Rightarrow> string \<Rightarrow> jsval" where
  \<comment> \<open>the fields the engine computes for a sprite: the supplied position, the size
      (20 when omitted), the kind and the colour derived from the kind\<close>
  "computed_field h spec k =
     (if k = ''x'' then spec_x spec
      else if k = ''y'' then spec_y spec
      else if k = ''width'' then default_arg (spec_width spec) (Num (Finite 20))
      else if k = ''height'' then default_arg (spec_height spec) (Num (Finite 20))
      else if k = ''asset'' then spec_asset spec
      else if k = ''color'' then sprite_color h (spec_asset spec)
      else Undefined)"

definition normalize_key :: "string \<Rightarrow> string" where
  \<comment> \<open>lowercasing and removing spaces\<close>
  "normalize_key key = remove_spaces (toLowerCase key)"

definition alias_code :: "string \<Rightarrow> string option" where
  \<comment> \<open>the aliases of the 2D engine and their canonical key codes\<close>
  "alias_code n =
     (if n = ''space'' then Some ''Space''
      else if n = ''arrowleft'' then Some ''ArrowLeft''
      else if n = ''arrowright'' then Some ''ArrowRight''
      else if n = ''arrowup'' then Some ''ArrowUp''
      else if n = ''arrowdown'' then Some ''ArrowDown''
      else None)"

definition alias_code3D :: "string \<Rightarrow> string option" where
  \<comment> \<open>the 3D engine adds W, A, S and D\<close>
  "alias_code3D n =
     (if n = ''keyw'' then Some ''KeyW''
      else if n = ''keya'' then Some ''KeyA''
      else if n = ''keys'' then Some ''KeyS''
      else if n = ''keyd'' then Some ''KeyD''
      else alias_code n)"

definition alias_or_verbatim :: "(string \<Rightarrow> string option) \<Rightarrow> string set \<Rightarrow> string \<Rightarrow> bool" where
  \<comment> \<open>an alias tests its canonical code, any other string is looked up as it is\<close>
  "alias_or_verbatim alias keys key =
     (case alias (normalize_key key) of Some code \<Rightarrow> code \<in> keys | None \<Rightarrow> key \<in> keys)"

definition keyboard_codes :: "string set \<Rightarrow> bool" where
  \<comment> \<open>The held set holds the \<^verbatim>\<open>code\<close> values of a keyboard's events, such as
      \<^verbatim>\<open>KeyA\<close> or \<^verbatim>\<open>ArrowLeft\<close>: none of them is, up to case and spaces, a name
      that an object literal inherits from \<^verbatim>\<open>Object.prototype\<close>.\<close>
  "keyboard_codes keys = (\<forall>c \<in> keys. normalize_key c \<notin> set object_prototype_names)"

definition number_or_zero :: "jsval \<Rightarrow> jsval" where
  \<comment> \<open>the previous velocity, or 0 if it is not a number\<close>
  "number_or_zero v = (if typeof_number v then v else Num (Finite 0))"

section \<open>Facts about the concrete inputs\<close>

lemma demo2d_sprites: "sprites demo2d = [Addr 0, Addr 1, Addr 2]"
  by (simp add: demo2d_def create_sprite_def init2d_def Let_def)

lemma demo2d_heap:
  "heap demo2d (Addr 0) = [''x'' \<mapsto> Num (Finite 0), ''y'' \<mapsto> Num (Finite 0),
      ''width'' \<mapsto> Num (Finite 20), ''height'' \<mapsto> Num (Finite 20),
      ''asset'' \<mapsto> Str ''player'', ''color'' \<mapsto> Str ''skyblue'']"
  "heap demo2d (Addr (Suc 0)) = [''x'' \<mapsto> Num (Finite 10), ''y'' \<mapsto> Num (Finite 10),
      ''width'' \<mapsto> Num (Finite 20), ''height'' \<mapsto> Num (Finite 20),
      ''asset'' \<mapsto> Str ''enemy'', ''color'' \<mapsto> Str ''tomato'']"
  "heap demo2d (Addr 2) = [''x'' \<mapsto> Num (Finite 20), ''y'' \<mapsto> Num (Finite 0),
      ''width'' \<mapsto> Num (Finite 20), ''height'' \<mapsto> Num (Finite 20),
      ''asset'' \<mapsto> Str ''platform'', ''color'' \<mapsto> Str ''lightgreen'']"
  by (simp_all add: demo2d_def create_sprite_def init2d_def Let_def box_spec_def default_arg_def
        sprite_color_def ToPropertyKey_def lookup_literal_def colorMap_def js_or_def)

lemma demo2d_boxes:
  "has_box (heap demo2d) (Obj (Addr 0)) 0 0 20 20"
  "has_box (heap demo2d) (Obj (Addr (Suc 0))) 10 10 20 20"
  "has_box (heap demo2d) (Obj (Addr 2)) 20 0 20 20"
  by (simp_all add: has_box_def get_prop_def demo2d_heap)

section \<open>Collisions\<close>

lemma has_box_truthy: "has_box hp v bx by bw bh \<Longrightarrow> truthy v"
  by (cases v) (auto simp: has_box_def get_prop_def)

lemma checkCollision_boxes:
  assumes "has_box hp a ax ay aw ah" and "has_box hp b bx by bw bh"
  shows "checkCollision h hp a b =
           (ax < bx + bw \<and> bx < ax + aw \<and> ay < by + bh \<and> by < ay + ah)"
  using assms has_box_truthy[OF assms(1)] has_box_truthy[OF assms(2)]
  by (auto simp: checkCollision_def has_box_def js_lt_def js_gt_def js_add_def)

lemma demo2d_collisions:
  "checkCollision h (heap demo2d) (Obj (Addr 0)) (Obj (Addr (Suc 0)))"
  "checkCollision h (heap demo2d) (Obj (Addr (Suc 0))) (Obj (Addr 0))"
  "\<not> checkCollision h (heap demo2d) (Obj (Addr 0)) (Obj (Addr 2))"
  by (simp_all add: checkCollision_boxes[OF demo2d_boxes(1) demo2d_boxes(2)]
        checkCollision_boxes[OF demo2d_boxes(2) demo2d_boxes(1)]
        checkCollision_boxes[OF demo2d_boxes(1) demo2d_boxes(3)])

text \<open>
  C1. For every live sprite collection and every sprite \<open>s\<close>,
  \<^verbatim>\<open>physics.getCollisions(s)\<close> returns exactly the live sprites other than \<open>s\<close>
  for which \<^verbatim>\<open>checkCollision(s, other)\<close> is true, in the order of the collection, and
  never \<open>s\<close> itself.
\<close>

theorem getCollisions_exact:
  "getCollisions h st s =
     filter (\<lambda>other. Obj other \<noteq> s \<and> checkCollision h (heap st) s (Obj other)) (sprites st)
   \<and> set (getCollisions h st s) =
       {other \<in> set (sprites st). Obj other \<noteq> s \<and> checkCollision h (heap st) s (Obj other)}
   \<and> s \<notin> Obj ` set (getCollisions h st s)"
  by (auto simp: getCollisions_def strict_eq_def intro!: filter_cong)

theorem getCollisions_exact_witness:
  "getCollisions plain_host demo2d (Obj (Addr 0)) = [Addr 1] \<and>
   Obj (Addr 0) \<notin> Obj ` set (getCollisions plain_host demo2d (Obj (Addr 0)))"
  using getCollisions_exact [of plain_host demo2d "Obj (Addr 0)"]
  by (simp add: demo2d_sprites demo2d_collisions)

text \<open>
  C7. \<^verbatim>\<open>physics.checkCollision\<close> is symmetric: \<^verbatim>\<open>checkCollision(a, b)\<close> equals
  \<^verbatim>\<open>checkCollision(b, a)\<close> for all arguments, axis-aligned boxes among them.
\<close>

theorem checkCollision_symmetric:
  "checkCollision h hp a b = checkCollision h hp b a"
  by (auto simp: checkCollision_def js_gt_def)

theorem checkCollision_symmetric_witness:
  "checkCollision plain_host (heap demo2d) (Obj (Addr 0)) (Obj (Addr 1)) \<and>
   checkCollision plain_host (heap demo2d) (Obj (Addr 1)) (Obj (Addr 0))"
  using checkCollision_symmetric [of plain_host "heap demo2d" "Obj (Addr 0)" "Obj (Addr 1)"]
  by (simp add: demo2d_collisions)

text \<open>
  C10. \<^verbatim>\<open>physics.checkCollision\<close> compares strictly: for two sprites whose boxes only
  touch along an edge or at a corner, one box ending where the other begins on some
  axis (as in \<^verbatim>\<open>a.x + a.width == b.x\<close>), it returns false.
\<close>

theorem checkCollision_touching:
  assumes "has_box hp a ax ay aw ah" and "has_box hp b bx by bw bh"
    and "ax + aw = bx \<or> bx + bw = ax \<or> ay + ah = by \<or> by + bh = ay"
  shows "checkCollision h hp a b = False"
  using assms(3) by (auto simp: checkCollision_boxes[OF assms(1,2)])

theorem checkCollision_touching_witness:
  "has_box (heap demo2d) (Obj (Addr 0)) 0 0 20 20 \<and>
   has_box (heap demo2d) (Obj (Addr 2)) 20 0 20 20 \<and>
   (0::real) + 20 = 20 \<and>
   checkCollision plain_host (heap demo2d) (Obj (Addr 0)) (Obj (Addr 2)) = False"
  using checkCollision_touching [OF demo2d_boxes(1) demo2d_boxes(3), of plain_host]
  by (simp add: demo2d_boxes)

section \<open>Gravity\<close>

text \<open>
  C3. For every sprite and every gravity force \<open>g\<close> (980 when omitted),
  \<^verbatim>\<open>physics.applyGravity\<close> steps by a fixed 1/60 of a second, whatever the frame's
  delta time: the new \<^verbatim>\<open>velocityY\<close> is the previous one (0 if it is not a number) plus
  \<open>g * (1/60)\<close>, and \<^verbatim>\<open>y\<close> then grows by the new \<^verbatim>\<open>velocityY\<close> times
  \<open>1/60\<close>. Nothing else of the engine changes.
\<close>

theorem applyGravity_fixed_step:
  "applyGravity h (Obj r) g st =
     (let vy = js_add h (number_or_zero (get_prop (heap st) (Obj r) ''velocityY''))
                        (js_mul h (default_arg g (Num (Finite 980))) (Num (Finite (1 / 60))));
          y = js_add h (get_prop (heap st) (Obj r) ''y'') (js_mul h vy (Num (Finite (1 / 60))))
      in Inr (st\<lparr>heap := (heap st)(r := (heap st r)(''velocityY'' \<mapsto> vy, ''y'' \<mapsto> y))\<rparr>))"
  by (auto simp: applyGravity_def Let_def set_prop_def get_prop_def number_or_zero_def
           intro!: arg_cong[where f="\<lambda>hp. st\<lparr>heap := hp\<rparr>"] ext split: option.splits)

theorem applyGravity_fixed_step_witness:
  "get_prop (heap (projr (applyGravity plain_host (Obj (Addr 0)) Undefined demo2d)))
            (Obj (Addr 0)) ''velocityY'' = Num (Finite (49 / 3)) \<and>
   get_prop (heap (projr (applyGravity plain_host (Obj (Addr 0)) Undefined demo2d)))
            (Obj (Addr 0)) ''y'' = Num (Finite (49 / 180))"
  using applyGravity_fixed_step [of plain_host "Addr 0" Undefined demo2d]
  by (simp add: Let_def get_prop_def demo2d_heap number_or_zero_def default_arg_def
        js_add_def js_mul_def)

section \<open>Sprites\<close>

lemma draw_subset_events:
  "gameLoop call t st1 = Inr (evs, st2) \<Longrightarrow> set (draw st2) \<subseteq> set evs"
  by (auto simp: gameLoop_def Let_def split: if_splits sum.splits)

lemma draw_sprite:
  "r \<in> set (sprites st) \<Longrightarrow>
   FillRect (get_prop (heap st) (Obj r) ''color'') (get_prop (heap st) (Obj r) ''x'')
            (get_prop (heap st) (Obj r) ''y'') (get_prop (heap st) (Obj r) ''width'')
            (get_prop (heap st) (Obj r) ''height'') \<in> set (draw st)"
  by (auto simp: draw_def)

lemma lookup_colorMap:
  "k \<notin> set object_prototype_names \<Longrightarrow>
   js_or (lookup_literal colorMap k) (lookup_literal colorMap ''default'') = Str (palette k)"
  by (simp add: lookup_literal_def colorMap_def palette_def js_or_def)

lemma create_red_player:
  "create_sprite plain_host red_player init2d =
     (Obj (Addr 0),
      init2d\<lparr>heap := (heap init2d)(Addr 0 :=
                 [''x'' \<mapsto> Num (Finite 0), ''y'' \<mapsto> Num (Finite 0),
                  ''width'' \<mapsto> Num (Finite 20), ''height'' \<mapsto> Num (Finite 20),
                  ''asset'' \<mapsto> Str ''player'', ''color'' \<mapsto> Str ''red'']),
              sprites := [Addr 0], next_addr := Suc 0\<rparr>)"
  by (simp add: create_sprite_def red_player_def init2d_def Let_def default_arg_def
        sprite_color_def ToPropertyKey_def lookup_literal_def colorMap_def js_or_def
        map_add_def fun_eq_iff)

lemma create_player:
  "create_sprite plain_host (box_spec 0 0 20 20 ''player'') init2d =
     (Obj (Addr 0),
      init2d\<lparr>heap := (heap init2d)(Addr 0 :=
                 [''x'' \<mapsto> Num (Finite 0), ''y'' \<mapsto> Num (Finite 0),
                  ''width'' \<mapsto> Num (Finite 20), ''height'' \<mapsto> Num (Finite 20),
                  ''asset'' \<mapsto> Str ''player'', ''color'' \<mapsto> Str ''skyblue'']),
              sprites := [Addr 0], next_addr := Suc 0\<rparr>)"
  by (simp add: create_sprite_def box_spec_def init2d_def Let_def default_arg_def
        sprite_color_def ToPropertyKey_def lookup_literal_def colorMap_def js_or_def)

text \<open>
  C4, as amended. For a sprite created by \<^verbatim>\<open>create.sprite\<close> with a kind \<open>k\<close> that is
  a string other than the name of a member inherited from \<^verbatim>\<open>Object.prototype\<close>, and
  with a property bag that has no \<^verbatim>\<open>color\<close> key, the sprite's colour is the palette
  colour of \<open>k\<close> (white when \<open>k\<close> is not in the palette), and every frame in which
  the sprite is live and its colour unchanged fills its rectangle with that colour.
\<close>

theorem create_sprite_color_palette:
  assumes "spec_asset spec = Str k" and "k \<notin> set object_prototype_names"
    and "spec_properties spec = None \<or>
         (\<exists>bag. spec_properties spec = Some bag \<and> bag ''color'' = None)"
    and "create_sprite h spec st = (Obj r, st')"
    and "gameLoop call t st1 = Inr (evs, st2)" and "r \<in> set (sprites st2)"
    and "get_prop (heap st2) (Obj r) ''color'' = get_prop (heap st') (Obj r) ''color''"
  shows "get_prop (heap st') (Obj r) ''color'' = Str (palette k) \<and>
         FillRect (Str (palette k)) (get_prop (heap st2) (Obj r) ''x'')
                  (get_prop (heap st2) (Obj r) ''y'') (get_prop (heap st2) (Obj r) ''width'')
                  (get_prop (heap st2) (Obj r) ''height'') \<in> set evs"
proof -
  have c: "get_prop (heap st') (Obj r) ''color'' = Str (palette k)"
    using assms(1,3,4) lookup_colorMap[OF assms(2)]
    by (auto simp: create_sprite_def Let_def get_prop_def sprite_color_def ToPropertyKey_def
          map_add_def split: option.splits)
  show ?thesis
    using draw_subset_events[OF assms(5)] draw_sprite[OF assms(6)] assms(7) c by auto
qed

lemma frame_player:
  "gameLoop idle_call 16 (snd (create_sprite plain_host (box_spec 0 0 20 20 ''player'') init2d)) =
     Inr ([ClearRect, Update (Num (Finite (2 / 125))),
           FillRect (Str ''skyblue'') (Num (Finite 0)) (Num (Finite 0)) (Num (Finite 20))
                    (Num (Finite 20)),
           RequestAnimationFrame],
          (snd (create_sprite plain_host (box_spec 0 0 20 20 ''player'') init2d))\<lparr>lastTime := 16\<rparr>)"
  unfolding create_player
  by (simp add: gameLoop_def init2d_def js_or_def draw_def get_prop_def idle_call_def)

theorem create_sprite_color_palette_witness:
  "spec_asset (box_spec 0 0 20 20 ''player'') = Str ''player'' \<and>
   ''player'' \<notin> set object_prototype_names \<and>
   spec_properties (box_spec 0 0 20 20 ''player'') = None \<and>
   get_prop (heap (snd (create_sprite plain_host (box_spec 0 0 20 20 ''player'') init2d)))
            (Obj (Addr 0)) ''color'' = Str ''skyblue'' \<and>
   FillRect (Str ''skyblue'') (Num (Finite 0)) (Num (Finite 0)) (Num (Finite 20))
            (Num (Finite 20))
     \<in> set (fst (projr (gameLoop idle_call 16
               (snd (create_sprite plain_host (box_spec 0 0 20 20 ''player'') init2d)))))"
proof -
  let ?S = "snd (create_sprite plain_host (box_spec 0 0 20 20 ''player'') init2d)"
  have a: "spec_asset (box_spec 0 0 20 20 ''player'') = Str ''player''"
    and p: "spec_properties (box_spec 0 0 20 20 ''player'') = None"
    by (simp_all add: box_spec_def)
  have n: "''player'' \<notin> set object_prototype_names"
    by (simp add: object_prototype_names_def)
  have cr: "create_sprite plain_host (box_spec 0 0 20 20 ''player'') init2d = (Obj (Addr 0), ?S)"
    by (simp add: create_player)
  have s: "Addr 0 \<in> set (sprites (?S\<lparr>lastTime := 16\<rparr>))"
    by (simp add: create_player)
  have c: "get_prop (heap (?S\<lparr>lastTime := 16\<rparr>)) (Obj (Addr 0)) ''color'' =
           get_prop (heap ?S) (Obj (Addr 0)) ''color''"
    by simp
  have g: "fst (projr (gameLoop idle_call 16 ?S)) =
           [ClearRect, Update (Num (Finite (2 / 125))),
            FillRect (Str ''skyblue'') (Num (Finite 0)) (Num (Finite 0)) (Num (Finite 20))
                     (Num (Finite 20)),
            RequestAnimationFrame]"
    by (simp add: frame_player)
  show ?thesis
    unfolding g
    using create_sprite_color_palette [OF a n disjI1 [OF p] cr frame_player s c]
    by (simp add: a p n palette_def)
qed

text \<open>
  C4, as stated, fails: a sprite of kind \<^verbatim>\<open>player\<close> created with the property bag
  \<^verbatim>\<open>{color: 'red'}\<close> is filled with red in the next frame, not with the palette's
  sky blue.
\<close>

theorem create_sprite_color_overridden:
  "map_sum id fst (gameLoop idle_call 16 (snd (create_sprite plain_host red_player init2d))) =
     Inr [ClearRect, Update (Num (Finite (2 / 125))),
          FillRect (Str ''red'') (Num (Finite 0)) (Num (Finite 0)) (Num (Finite 20))
                   (Num (Finite 20)),
          RequestAnimationFrame] \<and>
   palette ''player'' = ''skyblue''"
  unfolding create_red_player
  by (simp add: gameLoop_def init2d_def js_or_def draw_def get_prop_def palette_def
        idle_call_def)

lemma create_sprite_state:
  "create_sprite h spec st =
     (Obj (Addr (next_addr st)),
      st\<lparr>heap := (heap st)(Addr (next_addr st) :=
               [''x'' \<mapsto> spec_x spec, ''y'' \<mapsto> spec_y spec,
                ''width'' \<mapsto> default_arg (spec_width spec) (Num (Finite 20)),
                ''height'' \<mapsto> default_arg (spec_height spec) (Num (Finite 20)),
                ''asset'' \<mapsto> spec_asset spec,
                ''color'' \<mapsto> sprite_color h (spec_asset spec)]
               ++ (case spec_properties spec of None \<Rightarrow> Map.empty | Some b \<Rightarrow> b)),
          sprites := sprites st @ [Addr (next_addr st)],
          next_addr := Suc (next_addr st)\<rparr>)"
  by (simp add: create_sprite_def Let_def)

lemma computed_field_map:
  "[''x'' \<mapsto> spec_x spec, ''y'' \<mapsto> spec_y spec,
    ''width'' \<mapsto> default_arg (spec_width spec) (Num (Finite 20)),
    ''height'' \<mapsto> default_arg (spec_height spec) (Num (Finite 20)),
    ''asset'' \<mapsto> spec_asset spec,
    ''color'' \<mapsto> sprite_color h (spec_asset spec)] k =
   (if k \<in> {''x'', ''y'', ''width'', ''height'', ''asset'', ''color''}
    then Some (computed_field h spec k) else None)"
  by (simp add: computed_field_def)

lemma computed_field_other:
  "k \<notin> {''x'', ''y'', ''width'', ''height'', ''asset'', ''color''} \<Longrightarrow>
   computed_field h spec k = Undefined"
  by (simp add: computed_field_def)

text \<open>
  C9. \<^verbatim>\<open>create.sprite\<close> merges the caller's property bag after the fields the engine
  computes. The returned sprite is a new object appended to the live collection; each of
  its fields is the bag's value when the bag has that key, \<^verbatim>\<open>x\<close>, \<^verbatim>\<open>y\<close>,
  \<^verbatim>\<open>width\<close>, \<^verbatim>\<open>height\<close>, \<^verbatim>\<open>asset\<close> and \<^verbatim>\<open>color\<close> among them, and
  the engine-computed field otherwise. So the bag overrides the supplied position and size
  and the colour derived from the kind.
\<close>

theorem create_sprite_bag_overrides:
  assumes "spec_properties spec = Some bag"
    and "create_sprite h spec st = (s, st')"
  shows "s = Obj (Addr (next_addr st)) \<and>
         sprites st' = sprites st @ [Addr (next_addr st)] \<and>
         (\<forall>k. get_prop (heap st') s k =
                (case bag k of Some v \<Rightarrow> v | None \<Rightarrow> computed_field h spec k))"
proof -
  let ?r = "Addr (next_addr st)"
  let ?S = "{''x'', ''y'', ''width'', ''height'', ''asset'', ''color''}"
  have r: "s = Obj ?r"
    using assms(2) unfolding create_sprite_state by (simp only: prod.inject)
  have st': "snd (create_sprite h spec st) = st'"
    using assms(2) by (simp only: snd_conv)
  have l: "sprites st' = sprites st @ [?r]"
    unfolding st' [symmetric] create_sprite_state by simp
  have hp: "heap st' ?r k =
              (case bag k of
                 None \<Rightarrow> if k \<in> ?S then Some (computed_field h spec k) else None
               | Some v \<Rightarrow> Some v)" for k
  proof -
    have "heap st' ?r =
            [''x'' \<mapsto> spec_x spec, ''y'' \<mapsto> spec_y spec,
             ''width'' \<mapsto> default_arg (spec_width spec) (Num (Finite 20)),
             ''height'' \<mapsto> default_arg (spec_height spec) (Num (Finite 20)),
             ''asset'' \<mapsto> spec_asset spec,
             ''color'' \<mapsto> sprite_color h (spec_asset spec)] ++ bag"
      unfolding st' [symmetric] create_sprite_state by (simp add: assms(1))
    then show ?thesis
      by (simp only: map_add_def computed_field_map)
  qed
  have g: "get_prop (heap st') (Obj ?r) k =
             (case bag k of Some v \<Rightarrow> v | None \<Rightarrow> computed_field h spec k)" for k
  proof (cases "bag k")
    case None
    show ?thesis
    proof (cases "k \<in> ?S")
      case True
      with None show ?thesis
        by (simp only: get_prop_def jsval.case ref.case hp option.case if_True)
    next
      case False
      with None computed_field_other [OF False, of h spec] show ?thesis
        by (simp only: get_prop_def jsval.case ref.case hp option.case if_False)
    qed
  next
    case (Some v)
    then show ?thesis
      by (simp only: get_prop_def jsval.case ref.case hp option.case)
  qed
  show ?thesis
    unfolding r using g l by blast
qed

lemma create_moved_red_player:
  "create_sprite plain_host moved_red_player init2d =
     (Obj (Addr 0),
      init2d\<lparr>heap := (heap init2d)(Addr 0 :=
                 [''x'' \<mapsto> Num (Finite 5), ''y'' \<mapsto> Num (Finite 0),
                  ''width'' \<mapsto> Num (Finite 20), ''height'' \<mapsto> Num (Finite 20),
                  ''asset'' \<mapsto> Str ''player'', ''color'' \<mapsto> Str ''red'']),
              sprites := [Addr 0], next_addr := Suc 0\<rparr>)"
  by (simp add: create_sprite_def moved_red_player_def init2d_def Let_def default_arg_def
        sprite_color_def ToPropertyKey_def lookup_literal_def colorMap_def js_or_def
        map_add_def fun_eq_iff)

theorem create_sprite_bag_overrides_witness:
  "spec_properties moved_red_player = Some [''x'' \<mapsto> Num (Finite 5), ''color'' \<mapsto> Str ''red''] \<and>
   computed_field plain_host moved_red_player ''x'' = Num (Finite 0) \<and>
   computed_field plain_host moved_red_player ''color'' = Str ''skyblue'' \<and>
   fst (create_sprite plain_host moved_red_player init2d) = Obj (Addr 0) \<and>
   sprites (snd (create_sprite plain_host moved_red_player init2d)) = [Addr 0] \<and>
   get_prop (heap (snd (create_sprite plain_host moved_red_player init2d))) (Obj (Addr 0)) ''x''
     = Num (Finite 5) \<and>
   get_prop (heap (snd (create_sprite plain_host moved_red_player init2d))) (Obj (Addr 0))
     ''color'' = Str ''red'' \<and>
   get_prop (heap (snd (create_sprite plain_host moved_red_player init2d))) (Obj (Addr 0)) ''y''
     = Num (Finite 0) \<and>
   get_prop (heap (snd (create_sprite plain_host moved_red_player init2d))) (Obj (Addr 0))
     ''width'' = Num (Finite 20)"
proof -
  let ?S = "snd (create_sprite plain_host moved_red_player init2d)"
  let ?bag = "[''x'' \<mapsto> Num (Finite 5), ''color'' \<mapsto> Str ''red'']"
  have b: "spec_properties moved_red_player = Some ?bag"
    by (simp add: moved_red_player_def)
  have cr: "create_sprite plain_host moved_red_player init2d = (Obj (Addr 0), ?S)"
    by (simp add: create_moved_red_player)
  have cf: "computed_field plain_host moved_red_player ''x'' = Num (Finite 0)"
    "computed_field plain_host moved_red_player ''color'' = Str ''skyblue''"
    "computed_field plain_host moved_red_player ''y'' = Num (Finite 0)"
    "computed_field plain_host moved_red_player ''width'' = Num (Finite 20)"
    by (simp_all add: computed_field_def moved_red_player_def default_arg_def sprite_color_def
          ToPropertyKey_def lookup_literal_def colorMap_def js_or_def)
  have n: "next_addr init2d = 0" "sprites init2d = []"
    by (simp_all add: init2d_def)
  have bg: "?bag ''x'' = Some (Num (Finite 5))" "?bag ''color'' = Some (Str ''red'')"
    "?bag ''y'' = None" "?bag ''width'' = None"
    by simp_all
  note w = create_sprite_bag_overrides [OF b cr, unfolded n append_Nil]
  from w have a: "sprites ?S = [Addr 0]"
    by blast
  from w have k: "get_prop (heap ?S) (Obj (Addr 0)) k =
                    (case ?bag k of Some v \<Rightarrow> v | None \<Rightarrow> computed_field plain_host moved_red_player k)" for k
    by blast
  have x: "get_prop (heap ?S) (Obj (Addr 0)) ''x'' = Num (Finite 5)"
    and c: "get_prop (heap ?S) (Obj (Addr 0)) ''color'' = Str ''red''"
    and y: "get_prop (heap ?S) (Obj (Addr 0)) ''y'' = Num (Finite 0)"
    and wd: "get_prop (heap ?S) (Obj (Addr 0)) ''width'' = Num (Finite 20)"
    unfolding k bg cf by simp_all
  have f: "fst (create_sprite plain_host moved_red_player init2d) = Obj (Addr 0)"
    by (simp add: create_moved_red_player)
  show ?thesis
    using b cf(1,2) f a x c y wd by (simp only: simp_thms)
qed

section \<open>Destroying entities\<close>

lemma dispose_twice:
  "dispose r (dispose q (dispose r (dispose q d))) = dispose r (dispose q d)"
  by (auto simp: dispose_def split: option.splits)

lemma remove1_twice: "distinct xs \<Longrightarrow> remove1 a (remove1 a xs) = remove1 a xs"
  by (simp add: remove1_idem)

text \<open>
  C5. \<^verbatim>\<open>destroy\<close> is idempotent in both engines. In Engine2D a second
  \<^verbatim>\<open>destroy(e)\<close> leaves the engine as the first one left it. In Engine3D, for a
  mesh, neither call throws, the second leaves the mesh collection as the first one left
  it, and it changes nothing at all when the scene holds no node twice.
\<close>

theorem destroy_idempotent:
  "destroy e (destroy e st) = destroy e st \<and>
   (\<exists>st1. destroy3D (Obj (Addr a)) st3 = Inr st1 \<and>
      (\<exists>st2. destroy3D (Obj (Addr a)) st1 = Inr st2 \<and> meshes st2 = meshes st1 \<and>
         (distinct (scene st3) \<longrightarrow> st2 = st1)))"
  by (auto simp: destroy_def destroy3D_def dispose_twice remove1_twice)

theorem destroy_idempotent_witness:
  "sprites (destroy (Obj (Addr 1)) (destroy (Obj (Addr 1)) demo2d)) = [Addr 0, Addr 2] \<and>
   distinct (scene demo3d) \<and>
   meshes (projr (destroy3D (Obj (Addr 0)) demo3d)) = [] \<and>
   destroy3D (Obj (Addr 0)) (projr (destroy3D (Obj (Addr 0)) demo3d)) =
     destroy3D (Obj (Addr 0)) demo3d"
proof -
  have d: "distinct (scene demo3d)"
    by (simp add: demo3d_def init3d_def)
  have m: "meshes (projr (destroy3D (Obj (Addr 0)) demo3d)) = []"
    by (simp add: destroy3D_def demo3d_def init3d_def strict_eq_def)
  have s: "sprites (destroy (Obj (Addr 1)) demo2d) = [Addr 0, Addr 2]"
    by (simp add: destroy_def demo2d_sprites strict_eq_def)
  show ?thesis
    using destroy_idempotent [of "Obj (Addr 1)" demo2d 0 demo3d] d m s by auto
qed

section \<open>Camera\<close>






section \<open>Frames\<close>

lemma js_or_delta: "js_or (Num (Finite d)) (Num (Finite 0)) = Num (Finite d)"
  by (simp add: js_or_def)

lemma gameLoop_update_arg:
  assumes "gameLoop call t st = Inr (evs, st')" and "callback_truthy (onUpdateCallback st)"
  shows "take 2 evs = [ClearRect, Update (Num (Finite ((t - lastTime st) / 1000)))]"
    and "[e \<leftarrow> drop 2 evs. \<exists>d. e = Update d] = []"
  using assms
  by (auto simp: gameLoop_def Let_def js_or_delta draw_def filter_empty_conv split: sum.splits)

text \<open>
  C2. The render loop passes the registered callback the seconds since the previous
  frame, and 0 on the first frame. The code does not do the latter: \<^verbatim>\<open>lastTime\<close>
  starts at 0, so the first frame of a fresh engine with a callback registered, at a
  timestamp of 1000 milliseconds, passes 1.
\<close>

theorem gameLoop_first_frame_delta:
  "gameLoop idle_call 1000 (onUpdate (Obj (Addr 0)) init2d) =
     Inr ([ClearRect, Update (Num (Finite 1)), RequestAnimationFrame],
          (onUpdate (Obj (Addr 0)) init2d)\<lparr>lastTime := 1000\<rparr>)"
  by (simp add: gameLoop_def onUpdate_def init2d_def js_or_def draw_def idle_call_def)

section \<open>Keys\<close>

lemma alias_code_keyMap: "map_of keyMap n = alias_code n"
  by (simp add: keyMap_def alias_code_def)

lemma alias_code_keyMap3D: "map_of keyMap3D n = alias_code3D n"
  by (simp add: keyMap3D_def keyMap_def alias_code3D_def alias_code_def)

lemma alias_code_nonempty: "alias_code n = Some code \<Longrightarrow> code \<noteq> []"
  by (auto simp: alias_code_def split: if_splits)

lemma alias_code3D_nonempty: "alias_code3D n = Some code \<Longrightarrow> code \<noteq> []"
  by (auto simp: alias_code3D_def alias_code_def split: if_splits)

lemma isPressed_with_alias:
  assumes "map_of km (normalize_key key) = Some code" and "code \<noteq> []"
  shows "isPressed_with km keys key = (code \<in> keys)"
  using assms
  by (simp add: isPressed_with_def normalize_key_def lookup_literal_def js_or_def set_has_def)

lemma isPressed_with_other:
  assumes "map_of km (normalize_key key) = None" and "keyboard_codes keys"
  shows "isPressed_with km keys key = (key \<in> keys)"
  using assms
  by (auto simp: isPressed_with_def normalize_key_def lookup_literal_def js_or_def set_has_def
        keyboard_codes_def Let_def)

lemma isPressed_with_lookup:
  assumes "keyboard_codes keys" and "\<And>n code. map_of km n = Some code \<Longrightarrow> code \<noteq> []"
  shows "isPressed_with km keys key = alias_or_verbatim (map_of km) keys key"
proof (cases "map_of km (normalize_key key)")
  case None
  then show ?thesis
    using isPressed_with_other [OF None assms(1)] by (simp add: alias_or_verbatim_def)
next
  case (Some code)
  then show ?thesis
    using isPressed_with_alias [OF Some assms(2) [OF Some]] by (simp add: alias_or_verbatim_def)
qed

lemma isPressed_space:
  "isPressed st ''Space'' = (''Space'' \<in> keysPressed st)"
  "isPressed st ''space'' = (''Space'' \<in> keysPressed st)"
  "isPressed st '' SPACE '' = (''Space'' \<in> keysPressed st)"
  "isPressed st ''KeyW'' = (''KeyW'' \<in> keysPressed st)"
  "isPressed3D st3 ''key w'' = (''KeyW'' \<in> keysPressed3D st3)"
  by (simp_all add: isPressed_def isPressed3D_def isPressed_with_def toLowerCase_def
        lower_char_def remove_spaces_def lookup_literal_def keyMap_def keyMap3D_def
        object_prototype_names_def js_or_def set_has_def)

text \<open>
  Without the condition on the held set the lookup is not verbatim: \<^verbatim>\<open>keyMap\<close>
  inherits \<^verbatim>\<open>constructor\<close> from \<^verbatim>\<open>Object.prototype\<close>, and with a synthetic key
  event of that code held, \<^verbatim>\<open>isPressed('constructor')\<close> is false in both engines.
\<close>

lemma isPressed_inherited_name:
  "isPressed (init2d\<lparr>keysPressed := {''constructor''}\<rparr>) ''constructor'' = False \<and>
   isPressed3D (init3d\<lparr>keysPressed3D := {''constructor''}\<rparr>) ''constructor'' = False"
  by (simp add: isPressed_def isPressed3D_def isPressed_with_def toLowerCase_def
        lower_char_def remove_spaces_def lookup_literal_def keyMap_def keyMap3D_def
        object_prototype_names_def js_or_def set_has_def)

lemma normalize_examples:
  "normalize_key '' SPACE '' = ''space''" "normalize_key ''space'' = ''space''"
  "normalize_key ''KeyQ'' = ''keyq''" "normalize_key ''keyq'' = ''keyq''"
  "normalize_key ''ArrowLeft'' = ''arrowleft''" "normalize_key ''Key W'' = ''keyw''"
  "normalize_key ''Space'' = ''space''"
  by (simp_all add: normalize_key_def toLowerCase_def lower_char_def remove_spaces_def)

lemma keyboard_codes_example: "keyboard_codes {''Space'', ''KeyQ''}"
  unfolding keyboard_codes_def
  by (simp add: normalize_examples object_prototype_names_def)

text \<open>
  C8. For every string key and every set of held keyboard codes, \<^verbatim>\<open>input.isPressed\<close>
  normalizes the key by lowercasing and removing spaces; if the normalized form is an
  alias (\<^verbatim>\<open>space\<close>, the four arrows, and W, A, S, D in Engine3D) it tests the canonical
  key code against the held set, and any other string is looked up as it is. Two keys with
  the same normalized form, an alias, therefore get the same answer: the lookup is
  insensitive to case and spaces on the aliases.
\<close>

theorem isPressed_alias_or_verbatim:
  assumes "keyboard_codes (keysPressed st)" and "keyboard_codes (keysPressed3D st3)"
  shows "isPressed st key = alias_or_verbatim alias_code (keysPressed st) key \<and>
         isPressed3D st3 key = alias_or_verbatim alias_code3D (keysPressed3D st3) key \<and>
         (normalize_key key = normalize_key key' \<and> alias_code (normalize_key key) \<noteq> None
            \<longrightarrow> isPressed st key = isPressed st key') \<and>
         (normalize_key key = normalize_key key' \<and> alias_code3D (normalize_key key) \<noteq> None
            \<longrightarrow> isPressed3D st3 key = isPressed3D st3 key')"
proof -
  have m2: "map_of keyMap = alias_code" and m3: "map_of keyMap3D = alias_code3D"
    by (simp_all add: fun_eq_iff alias_code_keyMap alias_code_keyMap3D)
  have a2: "isPressed st k = alias_or_verbatim alias_code (keysPressed st) k" for k
    unfolding isPressed_def
    using isPressed_with_lookup [OF assms(1), of keyMap k] alias_code_nonempty
    by (simp add: m2)
  have a3: "isPressed3D st3 k = alias_or_verbatim alias_code3D (keysPressed3D st3) k" for k
    unfolding isPressed3D_def
    using isPressed_with_lookup [OF assms(2), of keyMap3D k] alias_code3D_nonempty
    by (simp add: m3)
  show ?thesis
    unfolding a2 a3 by (auto simp: alias_or_verbatim_def)
qed

theorem isPressed_alias_or_verbatim_witness:
  "keyboard_codes {''Space'', ''KeyQ''} \<and>
   isPressed (init2d\<lparr>keysPressed := {''Space'', ''KeyQ''}\<rparr>) '' SPACE '' \<and>
   isPressed (init2d\<lparr>keysPressed := {''Space'', ''KeyQ''}\<rparr>) ''space'' \<and>
   isPressed (init2d\<lparr>keysPressed := {''Space'', ''KeyQ''}\<rparr>) ''KeyQ'' \<and>
   \<not> isPressed (init2d\<lparr>keysPressed := {''Space'', ''KeyQ''}\<rparr>) ''keyq'' \<and>
   \<not> isPressed (init2d\<lparr>keysPressed := {''Space'', ''KeyQ''}\<rparr>) ''ArrowLeft'' \<and>
   \<not> isPressed3D (init3d\<lparr>keysPressed3D := {''Space'', ''KeyQ''}\<rparr>) ''Key W''"
proof -
  let ?K = "{''Space'', ''KeyQ''}"
  let ?S = "init2d\<lparr>keysPressed := ?K\<rparr>"
  let ?T = "init3d\<lparr>keysPressed3D := ?K\<rparr>"
  have k2: "keyboard_codes (keysPressed ?S)" and k3: "keyboard_codes (keysPressed3D ?T)"
    using keyboard_codes_example by simp_all
  have s2: "keysPressed ?S = ?K" and s3: "keysPressed3D ?T = ?K"
    by simp_all
  have w2: "isPressed ?S k = alias_or_verbatim alias_code ?K k"
    and w3: "isPressed3D ?T k = alias_or_verbatim alias_code3D ?K k" for k
    using isPressed_alias_or_verbatim [OF k2 k3, of k k] unfolding s2 s3 by blast+
  have a: "alias_code ''space'' = Some ''Space''" "alias_code ''keyq'' = None"
    "alias_code ''arrowleft'' = Some ''ArrowLeft''" "alias_code3D ''keyw'' = Some ''KeyW''"
    by (simp_all add: alias_code_def alias_code3D_def)
  have e: "isPressed ?S '' SPACE ''" "isPressed ?S ''space''" "isPressed ?S ''KeyQ''"
    "\<not> isPressed ?S ''keyq''" "\<not> isPressed ?S ''ArrowLeft''"
    unfolding w2 alias_or_verbatim_def normalize_examples a by simp_all
  have f: "\<not> isPressed3D ?T ''Key W''"
    unfolding w3 alias_or_verbatim_def normalize_examples a by simp
  show ?thesis
    using keyboard_codes_example e f by blast
qed

end
